theory Spec2Isabelle
  imports Main
begin

section \<open>Python values and built-ins used by \<^verbatim>\<open>bin/fetch_reddit.py\<close>\<close>

text \<open>
  A Python \<^verbatim>\<open>str\<close> is a \<^typ>\<open>string\<close>: one \<^typ>\<open>char\<close> stands for one code point
  below 256.  A Python \<^verbatim>\<open>int\<close> is an \<^typ>\<open>int\<close>.  A value that may be \<^verbatim>\<open>None\<close>, and
  an attribute read with \<^verbatim>\<open>getattr(obj, name, default)\<close>, is an \<^typ>\<open>'a option\<close>.
\<close>

subsection \<open>\<^verbatim>\<open>str(n)\<close> for an integer\<close>

definition digit_char :: "nat \<Rightarrow> char" where
  "digit_char d = char_of (48 + d)"

fun str_nat :: "nat \<Rightarrow> string" where
  "str_nat n = (if n < 10 then [digit_char n] else str_nat (n div 10) @ [digit_char (n mod 10)])"

declare str_nat.simps [simp del]

definition str_int :: "int \<Rightarrow> string" where
  "str_int i = (if i < 0 then CHR ''-'' # str_nat (nat (- i)) else str_nat (nat i))"

subsection \<open>\<^verbatim>\<open>s * n\<close> and \<^verbatim>\<open>sep.join(parts)\<close>\<close>

text \<open>Python repeats a string zero times for every \<^verbatim>\<open>n <= 0\<close>.\<close>

definition str_mul :: "string \<Rightarrow> int \<Rightarrow> string" where
  "str_mul s n = concat (replicate (nat n) s)"

fun join :: "string \<Rightarrow> string list \<Rightarrow> string" where
  "join sep [] = []"
| "join sep [x] = x"
| "join sep (x # y # ys) = x @ sep @ join sep (y # ys)"

subsection \<open>\<^verbatim>\<open>int(s)\<close> for a string\<close>

text \<open>
  \<^verbatim>\<open>int(s)\<close> in base 10: surrounding whitespace is stripped, one sign may come first,
  then decimal digits, where a single underscore may stand between two digits.  Every
  other string raises \<^verbatim>\<open>ValueError\<close>, here the value \<^const>\<open>None\<close>.  Among the code
  points below 256 the whitespace that \<^verbatim>\<open>int\<close> strips is tab, line feed, vertical tab,
  form feed, carriage return, space, next line (133) and no-break space (160).  The
  interpreter also raises \<^verbatim>\<open>ValueError\<close> for more than 4300 digits, its default cap on
  the conversion.
\<close>

definition is_space :: "char \<Rightarrow> bool" where
  "is_space c = ((of_char c :: nat) \<in> {9, 10, 11, 12, 13, 32, 133, 160})"

definition is_digit :: "char \<Rightarrow> bool" where
  "is_digit c = (48 \<le> (of_char c :: nat) \<and> (of_char c :: nat) \<le> 57)"

definition digit_val :: "char \<Rightarrow> nat" where
  "digit_val c = of_char c - 48"

definition strip :: "string \<Rightarrow> string" where
  "strip s = rev (dropWhile is_space (rev (dropWhile is_space s)))"

fun parse_digits :: "nat \<Rightarrow> string \<Rightarrow> nat option" where
  "parse_digits acc [] = Some acc"
| "parse_digits acc (c # cs) =
     (if is_digit c then parse_digits (10 * acc + digit_val c) cs
      else if c = CHR ''_'' then
        (case cs of
           [] \<Rightarrow> None
         | d # ds \<Rightarrow> if is_digit d then parse_digits (10 * acc + digit_val d) ds else None)
      else None)"

definition parse_nat :: "string \<Rightarrow> nat option" where
  "parse_nat s =
     (case s of
        [] \<Rightarrow> None
      | c # cs \<Rightarrow> if is_digit c then parse_digits (digit_val c) cs else None)"

definition max_str_digits :: nat where
  "max_str_digits = 4300"

definition py_int :: "string \<Rightarrow> int option" where
  "py_int s =
     (if length (filter is_digit (strip s)) > max_str_digits then None
      else
        (case strip s of
           [] \<Rightarrow> None
         | c # cs \<Rightarrow>
             if c = CHR ''-'' then map_option (\<lambda>n. - int n) (parse_nat cs)
             else if c = CHR ''+'' then map_option int (parse_nat cs)
             else map_option int (parse_nat (c # cs))))"

section \<open>Comments and their rendering\<close>

text \<open>
  A node of \<^verbatim>\<open>submission.comments.list()\<close>.  \<^verbatim>\<open>comment.author\<close> is a Redditor, whose
  \<^verbatim>\<open>str\<close> is its name, or \<^verbatim>\<open>None\<close> for a deleted account; a Redditor object is always
  truthy.  The three other attributes are read with \<^verbatim>\<open>getattr\<close> and a default, so
  \<^const>\<open>None\<close> is the node that does not expose the attribute.
\<close>

record comment =
  author :: "string option"
  score :: "int option"
  depth :: "int option"
  body :: "string option"

text \<open>Lines 71 to 75 and 78 of \<^verbatim>\<open>render_comment\<close>: the header.\<close>

definition header :: "comment \<Rightarrow> string" where
  "header comment =
     (let author_label = (case author comment of Some a \<Rightarrow> ''u/'' @ a | None \<Rightarrow> ''[deleted]'');
          header_parts = [author_label] @
            (case score comment of
               Some s \<Rightarrow> [''(score: '' @ str_int s @ '')'']
             | None \<Rightarrow> [])
      in join '' '' header_parts)"

text \<open>Lines 77, 79 and 80 of \<^verbatim>\<open>render_comment\<close>: indentation, body and the block.\<close>

definition render_comment :: "comment \<Rightarrow> string" where
  "render_comment comment =
     (let indent = str_mul ''  '' (case depth comment of Some d \<Rightarrow> d | None \<Rightarrow> 0);
          body_text = (case body comment of Some b \<Rightarrow> b | None \<Rightarrow> '''')
      in indent @ header comment @ ''\<newline>'' @ indent @ body_text)"

section \<open>\<^verbatim>\<open>json.dumps\<close> with its default arguments\<close>

text \<open>
  The values the payload is built from.  A Python \<^verbatim>\<open>dict\<close> keeps its keys in insertion
  order and \<^verbatim>\<open>json.dumps\<close> writes them in that order, so an object is an association
  list.
\<close>

datatype json =
    JNull
  | JInt int
  | JStr string
  | JArr "json list"
  | JObj "(string \<times> json) list"

text \<open>
  With \<^verbatim>\<open>ensure_ascii=True\<close> every character outside the range from space to tilde is
  escaped, and so are the double quote and the backslash.
\<close>

definition hex_digit :: "nat \<Rightarrow> char" where
  "hex_digit d = (if d < 10 then char_of (48 + d) else char_of (87 + d))"

definition hex4 :: "nat \<Rightarrow> string" where
  "hex4 n =
     [hex_digit (n div 4096 mod 16), hex_digit (n div 256 mod 16),
      hex_digit (n div 16 mod 16), hex_digit (n mod 16)]"

definition escape_char :: "char \<Rightarrow> string" where
  "escape_char c =
     (if c = CHR 0x22 then [CHR 0x5C, CHR 0x22]
      else if c = CHR 0x5C then [CHR 0x5C, CHR 0x5C]
      else if c = CHR 0x0A then [CHR 0x5C, CHR ''n'']
      else if c = CHR 0x0D then [CHR 0x5C, CHR ''r'']
      else if c = CHR 0x09 then [CHR 0x5C, CHR ''t'']
      else if c = CHR 0x0C then [CHR 0x5C, CHR ''f'']
      else if c = CHR 0x08 then [CHR 0x5C, CHR ''b'']
      else if 32 \<le> (of_char c :: nat) \<and> (of_char c :: nat) \<le> 126 then [c]
      else [CHR 0x5C, CHR ''u''] @ hex4 (of_char c))"

definition encode_str :: "string \<Rightarrow> string" where
  "encode_str s = [CHR 0x22] @ concat (map escape_char s) @ [CHR 0x22]"

fun json_dumps :: "json \<Rightarrow> string"
  and dumps_items :: "json list \<Rightarrow> string"
  and dumps_members :: "(string \<times> json) list \<Rightarrow> string"
where
  "json_dumps JNull = ''null''"
| "json_dumps (JInt n) = str_int n"
| "json_dumps (JStr s) = encode_str s"
| "json_dumps (JArr xs) = ''['' @ dumps_items xs @ '']''"
| "json_dumps (JObj kvs) = ''{'' @ dumps_members kvs @ ''}''"
| "dumps_items [] = []"
| "dumps_items [x] = json_dumps x"
| "dumps_items (x # y # ys) = json_dumps x @ '', '' @ dumps_items (y # ys)"
| "dumps_members [] = []"
| "dumps_members [(k, v)] = encode_str k @ '': '' @ json_dumps v"
| "dumps_members ((k, v) # m # ms) =
     encode_str k @ '': '' @ json_dumps v @ '', '' @ dumps_members (m # ms)"

section \<open>The submission and the client library\<close>

text \<open>
  The attributes of a fetched submission that \<^verbatim>\<open>main\<close> reads.  \<^verbatim>\<open>title\<close> and
  \<^verbatim>\<open>selftext\<close> are guarded with \<^verbatim>\<open>or ""\<close>, so they may be \<^verbatim>\<open>None\<close>;
  \<^verbatim>\<open>str(submission.subreddit)\<close> is the subreddit's name; \<^verbatim>\<open>submission.author\<close> is a
  Redditor or \<^verbatim>\<open>None\<close>, as for a comment.
\<close>

record submission =
  title :: "string option"
  selftext :: "string option"
  permalink :: string
  submission_score :: int
  subreddit :: string
  submission_author :: "string option"
  num_comments :: int

text \<open>
  An exception that leaves the client library, with the traceback the interpreter
  prints for it.
\<close>

datatype exn = Exn string

fun traceback :: "exn \<Rightarrow> string" where
  "traceback (Exn t) = t"

text \<open>
  What \<^verbatim>\<open>main\<close> hands to the library: the keyword arguments of \<^verbatim>\<open>praw.Reddit\<close>, the
  URL and the comment sort.
\<close>

record request =
  client_id :: string
  client_secret :: string
  user_agent :: string
  check_for_async :: bool
  url :: string
  comment_sort :: string

text \<open>
  The library is not part of the repository; it is a parameter of the model, with the
  three calls of \<^verbatim>\<open>main\<close> that can fail:
  \<^item> \<^verbatim>\<open>reddit.submission(url=url)\<close> on a fresh \<^verbatim>\<open>praw.Reddit(...)\<close> resolves the URL
    (lines 35 to 42); the comment sort is set only afterwards (line 43);
  \<^item> the first attribute read, \<^verbatim>\<open>submission.title\<close> (line 45), authenticates and
    fetches the submission;
  \<^item> \<^verbatim>\<open>submission.comments.replace_more(limit=None)\<close> (line 48) expands the comment
    forest, which \<^verbatim>\<open>submission.comments.list()\<close> (line 50) then flattens.
\<close>

record praw =
  resolve :: "request \<Rightarrow> exn option"
  fetch :: "request \<Rightarrow> exn + submission"
  replace_more :: "request \<Rightarrow> exn + comment list"

section \<open>The program\<close>

text \<open>What a run leaves behind: the two output streams and the exit status.\<close>

record process =
  stdout :: string
  stderr :: string
  exit_code :: int

text \<open>
  \<^verbatim>\<open>sys.stderr.write(msg); sys.exit(1)\<close>, and an exception nothing catches: the
  interpreter prints the traceback on standard error and exits with status 1.
\<close>

definition exit_1 :: "string \<Rightarrow> process" where
  "exit_1 msg = \<lparr>stdout = [], stderr = msg, exit_code = 1\<rparr>"

definition uncaught :: "exn \<Rightarrow> process" where
  "uncaught e = \<lparr>stdout = [], stderr = traceback e, exit_code = 1\<rparr>"

text \<open>Truthiness of an optional string: neither \<^verbatim>\<open>None\<close> nor empty.\<close>

definition truthy :: "string option \<Rightarrow> bool" where
  "truthy v = (case v of None \<Rightarrow> False | Some s \<Rightarrow> s \<noteq> [])"

text \<open>\<^verbatim>\<open>os.environ.get(name, default)\<close>.\<close>

definition environ_get :: "(string \<rightharpoonup> string) \<Rightarrow> string \<Rightarrow> string \<Rightarrow> string" where
  "environ_get environ name dflt = (case environ name of None \<Rightarrow> dflt | Some v \<Rightarrow> v)"

text \<open>Lines 23 to 29: the comment limit read from the environment.\<close>

definition comment_limit_of :: "string option \<Rightarrow> int option" where
  "comment_limit_of comment_limit_env =
     (if truthy comment_limit_env then py_int (the comment_limit_env) else None)"

text \<open>
  Lines 50 to 54: the loop over the flattened comments, with the list \<^verbatim>\<open>comments\<close>
  built so far as the accumulator.  \<^verbatim>\<open>comment_limit and len(comments) >= comment_limit\<close>
  is false for \<^verbatim>\<open>None\<close> and for \<^verbatim>\<open>0\<close>.
\<close>

fun comments_loop :: "int option \<Rightarrow> comment list \<Rightarrow> string list \<Rightarrow> string list" where
  "comments_loop comment_limit [] comments = comments"
| "comments_loop comment_limit (comment # rest) comments =
     (if truthy (body comment) then
        (let comments' = comments @ [render_comment comment] in
         if (case comment_limit of
               None \<Rightarrow> False
             | Some n \<Rightarrow> n \<noteq> 0 \<and> int (length comments') \<ge> n)
         then comments'
         else comments_loop comment_limit rest comments')
      else comments_loop comment_limit rest comments)"

text \<open>Lines 45, 46 and 56 to 65: the payload.\<close>

definition payload :: "submission \<Rightarrow> string list \<Rightarrow> json" where
  "payload submission comments =
     (let submission_title = (if truthy (title submission) then the (title submission) else []);
          submission_selftext =
            (if truthy (selftext submission) then the (selftext submission) else [])
      in JObj
        [(''title'', JStr submission_title),
         (''selftext'', JStr submission_selftext),
         (''comments'', JArr (map JStr comments)),
         (''permalink'', JStr (permalink submission)),
         (''score'', JInt (submission_score submission)),
         (''subreddit'', JStr (subreddit submission)),
         (''author'',
            (case submission_author submission of Some a \<Rightarrow> JStr a | None \<Rightarrow> JNull)),
         (''comment_count'', JInt (num_comments submission))])"

text \<open>
  Lines 18 to 22 and 35 to 43: what \<^verbatim>\<open>main\<close> passes to the library.  \<^verbatim>\<open>argv\<close> is
  \<^verbatim>\<open>sys.argv\<close> and \<^verbatim>\<open>environ\<close> is \<^verbatim>\<open>os.environ\<close>.  \<^verbatim>\<open>main\<close> builds the request
  only after it has checked that the URL and both credentials are there.
\<close>

definition request_of :: "string list \<Rightarrow> (string \<rightharpoonup> string) \<Rightarrow> request" where
  "request_of argv environ =
     \<lparr>client_id = the (environ ''REDDIT_CLIENT_ID''),
      client_secret = the (environ ''REDDIT_CLIENT_SECRET''),
      user_agent = environ_get environ ''REDDIT_USER_AGENT'' ''twx-reddit/0.1'',
      check_for_async = False,
      url = argv ! 1,
      comment_sort = environ_get environ ''REDDIT_COMMENT_SORT'' ''confidence''\<rparr>"

text \<open>
  \<^verbatim>\<open>main\<close>, lines 13 to 67.  The one \<^verbatim>\<open>print\<close> is the last statement, and a run that
  reaches the end of \<^verbatim>\<open>main\<close> exits with status 0.
\<close>

definition main :: "praw \<Rightarrow> string list \<Rightarrow> (string \<rightharpoonup> string) \<Rightarrow> process" where
  "main lib argv environ =
     (if length argv < 2 then exit_1 ''Usage: fetch_reddit.py <url>\<newline>''
      else
        let comment_limit = comment_limit_of (environ ''REDDIT_COMMENT_LIMIT'')
        in
          if \<not> truthy (environ ''REDDIT_CLIENT_ID'') \<or> \<not> truthy (environ ''REDDIT_CLIENT_SECRET'')
          then
            exit_1 ''Missing REDDIT_CLIENT_ID or REDDIT_CLIENT_SECRET environment variables.\<newline>''
          else
            let req = request_of argv environ
            in
              (case resolve lib req of
                 Some e \<Rightarrow> uncaught e
               | None \<Rightarrow>
                   (case fetch lib req of
                      Inl e \<Rightarrow> uncaught e
                    | Inr submission \<Rightarrow>
                        (case replace_more lib req of
                           Inl e \<Rightarrow> uncaught e
                         | Inr flat \<Rightarrow>
                             let comments = comments_loop comment_limit flat []
                             in \<lparr>stdout = json_dumps (payload submission comments) @ ''\<newline>'',
                                 stderr = [],
                                 exit_code = 0\<rparr>))))"

text \<open>
  The script, lines 6 to 10 and 83 to 84: without the library the import fails and the
  script exits before \<^verbatim>\<open>main\<close> is called.
\<close>

definition script :: "praw option \<Rightarrow> string list \<Rightarrow> (string \<rightharpoonup> string) \<Rightarrow> process" where
  "script praw_module argv environ =
     (case praw_module of
        None \<Rightarrow> exit_1 ''Missing dependency: praw. Install with `pip install praw`.\<newline>''
      | Some lib \<Rightarrow> main lib argv environ)"

section \<open>Notions the properties are stated with\<close>

text \<open>The comments that have a non-empty body, in their order.\<close>

definition with_body :: "comment list \<Rightarrow> comment list" where
  "with_body flat = filter (\<lambda>c. truthy (body c)) flat"

text \<open>The entries of the \<^verbatim>\<open>comments\<close> list of a payload.\<close>

definition payload_comments :: "json \<Rightarrow> json list" where
  "payload_comments p =
     (case p of
        JObj kvs \<Rightarrow> (case map_of kvs ''comments'' of Some (JArr xs) \<Rightarrow> xs | _ \<Rightarrow> [])
      | _ \<Rightarrow> [])"

subsection \<open>A concrete run\<close>

text \<open>
  The submission of the specification's end-to-end example, with a placeholder node
  that has no body between its two comments.
\<close>

definition alice_comment :: comment where
  "alice_comment =
     \<lparr>author = Some ''alice'', score = Some 5, depth = Some 0, body = Some ''first''\<rparr>"

definition placeholder :: comment where
  "placeholder = \<lparr>author = None, score = None, depth = None, body = None\<rparr>"

definition deleted_reply :: comment where
  "deleted_reply = \<lparr>author = None, score = None, depth = Some 1, body = Some ''reply''\<rparr>"

definition hi_flat :: "comment list" where
  "hi_flat = [alice_comment, placeholder, deleted_reply]"

definition hi_submission :: submission where
  "hi_submission =
     \<lparr>title = Some ''Hi'', selftext = Some [], permalink = ''/r/test/comments/abc/hi/'',
      submission_score = 7, subreddit = ''test'', submission_author = None, num_comments = 2\<rparr>"

definition hi_lib :: praw where
  "hi_lib =
     \<lparr>resolve = (\<lambda>r. None), fetch = (\<lambda>r. Inr hi_submission),
      replace_more = (\<lambda>r. Inr hi_flat)\<rparr>"

definition hi_argv :: "string list" where
  "hi_argv = [''fetch_reddit.py'', ''https://www.reddit.com/r/test/comments/abc/hi/'']"

definition hi_environ :: "string \<rightharpoonup> string" where
  "hi_environ = [''REDDIT_CLIENT_ID'' \<mapsto> ''id'', ''REDDIT_CLIENT_SECRET'' \<mapsto> ''secret'']"

text \<open>Libraries that fail at the first, the second and the third call.\<close>

definition bad_url_lib :: praw where
  "bad_url_lib = hi_lib\<lparr>resolve := (\<lambda>r. Some (Exn ''InvalidURL''))\<rparr>"

definition bad_auth_lib :: praw where
  "bad_auth_lib = hi_lib\<lparr>fetch := (\<lambda>r. Inl (Exn ''ResponseException''))\<rparr>"

definition bad_expand_lib :: praw where
  "bad_expand_lib = hi_lib\<lparr>replace_more := (\<lambda>r. Inl (Exn ''ServerError''))\<rparr>"

section \<open>Properties\<close>

subsection \<open>The serialised payload has no line break\<close>

lemma digit_char_not_newline:
  assumes "d < 10"
  shows "digit_char d \<noteq> CHR ''\<newline>''"
proof
  assume "digit_char d = CHR ''\<newline>''"
  then have "(of_char (digit_char d) :: nat) = of_char (CHR ''\<newline>'')"
    by simp
  with assms show False
    by (simp add: digit_char_def)
qed

lemma str_nat_no_newline: "CHR ''\<newline>'' \<notin> set (str_nat n)"
proof (induction n rule: str_nat.induct)
  case (1 n)
  show ?case
  proof (cases "n < 10")
    case True
    then show ?thesis
      using digit_char_not_newline [of n] by (simp add: str_nat.simps [of n])
  next
    case False
    have "n mod 10 < 10"
      by simp
    then have "digit_char (n mod 10) \<noteq> CHR ''\<newline>''"
      by (rule digit_char_not_newline)
    with False 1 show ?thesis
      by (auto simp add: str_nat.simps [of n])
  qed
qed

lemma str_int_no_newline: "CHR ''\<newline>'' \<notin> set (str_int i)"
  by (simp add: str_int_def str_nat_no_newline)

lemma hex_digit_not_newline:
  assumes "d < 16"
  shows "hex_digit d \<noteq> CHR ''\<newline>''"
proof
  assume "hex_digit d = CHR ''\<newline>''"
  then have "(of_char (hex_digit d) :: nat) = of_char (CHR ''\<newline>'')"
    by simp
  with assms show False
    by (simp add: hex_digit_def split: if_splits)
qed

lemma hex4_no_newline: "CHR ''\<newline>'' \<notin> set (hex4 n)"
  using hex_digit_not_newline [of "n div 4096 mod 16"]
    hex_digit_not_newline [of "n div 256 mod 16"]
    hex_digit_not_newline [of "n div 16 mod 16"]
    hex_digit_not_newline [of "n mod 16"]
  by (simp add: hex4_def)

lemma escape_char_no_newline: "CHR ''\<newline>'' \<notin> set (escape_char c)"
  using hex4_no_newline by (auto simp add: escape_char_def)

lemma encode_str_no_newline: "CHR ''\<newline>'' \<notin> set (encode_str s)"
  by (induction s) (simp_all add: encode_str_def escape_char_no_newline)

lemma json_dumps_no_newline:
  "CHR ''\<newline>'' \<notin> set (json_dumps j)"
  "CHR ''\<newline>'' \<notin> set (dumps_items xs)"
  "CHR ''\<newline>'' \<notin> set (dumps_members kvs)"
  by (induction j and xs and kvs rule: json_dumps_dumps_items_dumps_members.induct)
    (simp_all add: str_int_no_newline encode_str_no_newline)

subsection \<open>What the loop computes\<close>

lemma comments_loop_None:
  "comments_loop None flat acc = acc @ map render_comment (with_body flat)"
  by (induction flat arbitrary: acc) (simp_all add: with_body_def)

lemma comments_loop_zero:
  "comments_loop (Some 0) flat acc = acc @ map render_comment (with_body flat)"
  by (induction flat arbitrary: acc) (simp_all add: with_body_def)

text \<open>
  With a limit other than 0 the loop stops after the append that brings the list to
  the limit or beyond; it always appends once before it looks at the limit.
\<close>

lemma comments_loop_limit:
  assumes "n \<noteq> 0"
  shows "comments_loop (Some n) flat acc =
    acc @ take (nat (max 1 (n - int (length acc)))) (map render_comment (with_body flat))"
  using assms
proof (induction flat arbitrary: acc)
  case Nil
  then show ?case
    by (simp add: with_body_def)
next
  case (Cons c flat)
  show ?case
  proof (cases "truthy (body c)")
    case False
    with Cons show ?thesis
      by (simp add: with_body_def)
  next
    case True
    show ?thesis
    proof (cases "n \<le> int (length acc) + 1")
      case stop: True
      then have "nat (max 1 (n - int (length acc))) = 1"
        by simp
      with True stop Cons.prems show ?thesis
        by (simp add: with_body_def)
    next
      case go: False
      then have "nat (max 1 (n - int (length acc))) =
          Suc (nat (max 1 (n - int (length (acc @ [render_comment c])))))"
        by simp
      with True go Cons.prems Cons.IH [of "acc @ [render_comment c]"] show ?thesis
        by (simp add: with_body_def)
    qed
  qed
qed

lemma comments_loop_positive:
  assumes "0 < n"
  shows "comments_loop (Some n) flat [] = take (nat n) (map render_comment (with_body flat))"
  using assms comments_loop_limit [of n flat "[]"] by simp

lemma comments_loop_negative:
  assumes "n < 0"
  shows "comments_loop (Some n) flat [] = take 1 (map render_comment (with_body flat))"
  using assms comments_loop_limit [of n flat "[]"] by simp

lemma payload_comments_payload:
  "payload_comments (payload submission comments) = map JStr comments"
  by (simp add: payload_comments_def payload_def)

subsection \<open>The environment and the comment limit\<close>

lemma py_int_Nil: "py_int [] = None"
  by (simp add: py_int_def strip_def)

lemma comment_limit_of_unset: "comment_limit_of None = None"
  by (simp add: comment_limit_of_def truthy_def)

lemma comment_limit_of_Some: "comment_limit_of (Some s) = py_int s"
  by (simp add: comment_limit_of_def truthy_def py_int_Nil)

text \<open>
  A string with a character that is neither a digit, nor whitespace, nor a sign, nor an
  underscore is one that \<^verbatim>\<open>int\<close> rejects.
\<close>

lemma dropWhile_keeps:
  assumes "x \<in> set xs" and "\<not> P x"
  shows "x \<in> set (dropWhile P xs)"
  using assms by (induction xs) auto

lemma strip_keeps:
  assumes "x \<in> set s" and "\<not> is_space x"
  shows "x \<in> set (strip s)"
proof -
  from assms have "x \<in> set (rev (dropWhile is_space s))"
    by (simp add: dropWhile_keeps)
  then have "x \<in> set (dropWhile is_space (rev (dropWhile is_space s)))"
    using assms(2) by (rule dropWhile_keeps)
  then show ?thesis
    by (simp add: strip_def)
qed

lemma parse_digits_rejects:
  assumes "x \<in> set cs" and "\<not> is_digit x" and "x \<noteq> CHR ''_''"
  shows "parse_digits acc cs = None"
  using assms
proof (induction acc cs rule: parse_digits.induct)
  case (1 acc)
  then show ?case
    by simp
next
  case (2 acc c cs)
  then show ?case
    by (cases cs) auto
qed

lemma parse_nat_rejects:
  assumes "x \<in> set cs" and "\<not> is_digit x" and "x \<noteq> CHR ''_''"
  shows "parse_nat cs = None"
  using assms parse_digits_rejects [of x]
  by (cases cs) (auto simp add: parse_nat_def)

lemma py_int_rejects:
  assumes "x \<in> set s" and "\<not> is_digit x" and "\<not> is_space x"
    and "x \<noteq> CHR ''_''" and "x \<noteq> CHR ''+''" and "x \<noteq> CHR ''-''"
  shows "py_int s = None"
proof (cases "strip s")
  case Nil
  then show ?thesis
    by (simp add: py_int_def)
next
  case (Cons c cs)
  from assms(1,3) have "x \<in> set (strip s)"
    by (rule strip_keeps)
  with Cons have x: "x \<in> set (c # cs)"
    by simp
  have whole: "parse_nat (c # cs) = None"
    using x assms(2) assms(4) by (rule parse_nat_rejects)
  have rest: "parse_nat cs = None" if "c = CHR ''-'' \<or> c = CHR ''+''"
  proof -
    from that x assms(5,6) have "x \<in> set cs"
      by auto
    then show ?thesis
      using assms(2) assms(4) by (rule parse_nat_rejects)
  qed
  show ?thesis
    using Cons whole rest by (simp add: py_int_def)
qed

text \<open>
  The limit variable reaches \<^const>\<open>main\<close> only through the loop: two values of it under
  which the loop computes the same list give the same run.
\<close>

lemma request_of_limit:
  "request_of argv (environ(''REDDIT_COMMENT_LIMIT'' := v)) = request_of argv environ"
  by (simp add: request_of_def environ_get_def)

lemma main_limit:
  assumes "\<And>flat. comments_loop (comment_limit_of v) flat [] =
    comments_loop (comment_limit_of w) flat []"
  shows "main lib argv (environ(''REDDIT_COMMENT_LIMIT'' := v)) =
         main lib argv (environ(''REDDIT_COMMENT_LIMIT'' := w))"
  unfolding main_def Let_def request_of_limit
  by (simp add: assms split: option.split sum.split)

lemma script_limit:
  assumes "\<And>flat. comments_loop (comment_limit_of v) flat [] =
    comments_loop (comment_limit_of w) flat []"
  shows "script praw_module argv (environ(''REDDIT_COMMENT_LIMIT'' := v)) =
         script praw_module argv (environ(''REDDIT_COMMENT_LIMIT'' := w))"
  using main_limit [OF assms] by (simp add: script_def split: option.split)

subsection \<open>The outcomes of a run\<close>

lemma main_outcomes:
  "(stdout (main lib argv environ) = [] \<and> exit_code (main lib argv environ) = 1) \<or>
   (\<exists>submission flat.
      resolve lib (request_of argv environ) = None \<and>
      fetch lib (request_of argv environ) = Inr submission \<and>
      replace_more lib (request_of argv environ) = Inr flat \<and>
      main lib argv environ =
        \<lparr>stdout = json_dumps (payload submission
             (comments_loop (comment_limit_of (environ ''REDDIT_COMMENT_LIMIT'')) flat []))
           @ ''\<newline>'',
         stderr = [], exit_code = 0\<rparr>)"
  by (simp add: main_def Let_def exit_1_def uncaught_def split: option.split sum.split)

subsection \<open>The concrete run, evaluated\<close>

lemma str_int_5: "str_int 5 = ''5''"
  by code_simp

lemma py_int_1: "py_int ''1'' = Some 1"
  by code_simp

lemma py_int_0: "py_int ''0'' = Some 0"
  by code_simp

lemma py_int_minus_5: "py_int ''-5'' = Some (- 5)"
  by code_simp

lemma py_int_abc: "py_int ''abc'' = None"
  by code_simp

lemma hi_rendered:
  "map render_comment (with_body hi_flat) =
     [''u/alice (score: 5)\<newline>first'', ''  [deleted]\<newline>  reply'']"
  by (simp add: with_body_def hi_flat_def alice_comment_def placeholder_def deleted_reply_def
      truthy_def render_comment_def header_def str_mul_def str_int_5 eval_nat_numeral)

lemma hi_request_ok:
  "2 \<le> length hi_argv"
  "truthy (hi_environ ''REDDIT_CLIENT_ID'')"
  "truthy (hi_environ ''REDDIT_CLIENT_SECRET'')"
  by (simp_all add: truthy_def hi_environ_def hi_argv_def)

lemma concat_two_spaces: "concat (replicate d ''  '') = replicate (2 * d) CHR '' ''"
  by (induction d) simp_all

lemma str_mul_two_spaces: "str_mul ''  '' (int d) = replicate (2 * d) CHR '' ''"
  by (simp add: str_mul_def concat_two_spaces)

lemma comments_loop_drop:
  assumes "\<not> truthy (body c)"
  shows "comments_loop limit (before @ c # after) acc = comments_loop limit (before @ after) acc"
  using assms by (induction before arbitrary: acc) (simp_all add: Let_def)

subsection \<open>The claims\<close>

text \<open>
  Claim C1.  For every submission and every configuration, the number of strings in
  the \<^verbatim>\<open>comments\<close> list of the payload is at most the configured comment limit when a
  positive limit is set, and it is the number of comments with a non-empty body when no
  limit is set.  \<open>limit_env\<close> is the value of \<^verbatim>\<open>REDDIT_COMMENT_LIMIT\<close> in the environment,
  \<open>flat\<close> the flattened comment sequence.
\<close>

theorem comment_count:
  "(\<forall>n. comment_limit_of limit_env = Some n \<and> 0 < n \<longrightarrow>
      int (length (payload_comments
        (payload submission (comments_loop (comment_limit_of limit_env) flat [])))) \<le> n)
   \<and> (comment_limit_of limit_env = None \<longrightarrow>
      length (payload_comments
        (payload submission (comments_loop (comment_limit_of limit_env) flat []))) =
      length (with_body flat))"
  by (auto simp add: payload_comments_payload comments_loop_positive comments_loop_None)

theorem comment_count_witness:
  "comment_limit_of (Some ''1'') = Some 1 \<and> (0::int) < 1 \<and>
   int (length (payload_comments
     (payload hi_submission (comments_loop (comment_limit_of (Some ''1'')) hi_flat [])))) \<le> 1
   \<and> comment_limit_of None = None \<and>
   length (payload_comments
     (payload hi_submission (comments_loop (comment_limit_of None) hi_flat []))) = 2"
proof -
  have l1: "comment_limit_of (Some ''1'') = Some 1"
    by (simp add: comment_limit_of_Some py_int_1)
  have n: "length (with_body hi_flat) = 2"
    using arg_cong [OF hi_rendered, of length] by simp
  show ?thesis
    using comment_count [of "Some ''1''" hi_submission hi_flat]
      comment_count [of None hi_submission hi_flat] l1 comment_limit_of_unset n
    by simp
qed

text \<open>
  Claim C2.  On the success path (the URL and both credentials are there and the three
  calls of the library return) the program writes exactly one line to standard output:
  the line has no line break inside and is one JSON object with exactly the keys
  \<^verbatim>\<open>title\<close>, \<^verbatim>\<open>selftext\<close>, \<^verbatim>\<open>comments\<close>, \<^verbatim>\<open>permalink\<close>, \<^verbatim>\<open>score\<close>, \<^verbatim>\<open>subreddit\<close>,
  \<^verbatim>\<open>author\<close> and \<^verbatim>\<open>comment_count\<close>, in this order, whose values are a string, a string,
  an array of strings, a string, an integer, a string, a string or null, and an integer;
  \<^verbatim>\<open>author\<close> is null exactly when the submission has no author.  Nothing is written to
  standard error and the exit status is 0.
\<close>

theorem success_output:
  assumes "2 \<le> length argv"
    and "truthy (environ ''REDDIT_CLIENT_ID'')"
    and "truthy (environ ''REDDIT_CLIENT_SECRET'')"
    and "resolve lib (request_of argv environ) = None"
    and "fetch lib (request_of argv environ) = Inr submission"
    and "replace_more lib (request_of argv environ) = Inr flat"
  shows "\<exists>line t s cs a.
    script (Some lib) argv environ =
      \<lparr>stdout = line @ ''\<newline>'', stderr = [], exit_code = 0\<rparr> \<and>
    CHR ''\<newline>'' \<notin> set line \<and>
    line = json_dumps (JObj
      [(''title'', JStr t),
       (''selftext'', JStr s),
       (''comments'', JArr (map JStr cs)),
       (''permalink'', JStr (permalink submission)),
       (''score'', JInt (submission_score submission)),
       (''subreddit'', JStr (subreddit submission)),
       (''author'', a),
       (''comment_count'', JInt (num_comments submission))]) \<and>
    a = (case submission_author submission of None \<Rightarrow> JNull | Some name \<Rightarrow> JStr name) \<and>
    (a = JNull \<longleftrightarrow> submission_author submission = None)"
proof -
  define cs where
    "cs = comments_loop (comment_limit_of (environ ''REDDIT_COMMENT_LIMIT'')) flat []"
  define line where "line = json_dumps (payload submission cs)"
  have run: "script (Some lib) argv environ =
      \<lparr>stdout = line @ ''\<newline>'', stderr = [], exit_code = 0\<rparr>"
    using assms by (simp add: script_def main_def Let_def line_def cs_def)
  have one: "CHR ''\<newline>'' \<notin> set line"
    unfolding line_def by (rule json_dumps_no_newline)
  have shape: "payload submission cs = JObj
      [(''title'', JStr (if truthy (title submission) then the (title submission) else [])),
       (''selftext'',
          JStr (if truthy (selftext submission) then the (selftext submission) else [])),
       (''comments'', JArr (map JStr cs)),
       (''permalink'', JStr (permalink submission)),
       (''score'', JInt (submission_score submission)),
       (''subreddit'', JStr (subreddit submission)),
       (''author'',
          (case submission_author submission of None \<Rightarrow> JNull | Some name \<Rightarrow> JStr name)),
       (''comment_count'', JInt (num_comments submission))]"
    by (simp add: payload_def Let_def)
  have null:
    "(case submission_author submission of None \<Rightarrow> JNull | Some name \<Rightarrow> JStr name) = JNull
      \<longleftrightarrow> submission_author submission = None"
    by (simp split: option.split)
  from run one shape null show ?thesis
    unfolding line_def by metis
qed

theorem success_output_witness:
  "2 \<le> length hi_argv \<and> truthy (hi_environ ''REDDIT_CLIENT_ID'') \<and>
   truthy (hi_environ ''REDDIT_CLIENT_SECRET'') \<and>
   resolve hi_lib (request_of hi_argv hi_environ) = None \<and>
   fetch hi_lib (request_of hi_argv hi_environ) = Inr hi_submission \<and>
   replace_more hi_lib (request_of hi_argv hi_environ) = Inr hi_flat \<and>
   (\<exists>line t s cs.
      script (Some hi_lib) hi_argv hi_environ =
        \<lparr>stdout = line @ ''\<newline>'', stderr = [], exit_code = 0\<rparr> \<and>
      CHR ''\<newline>'' \<notin> set line \<and>
      line = json_dumps (JObj
        [(''title'', JStr t),
         (''selftext'', JStr s),
         (''comments'', JArr (map JStr cs)),
         (''permalink'', JStr ''/r/test/comments/abc/hi/''),
         (''score'', JInt 7),
         (''subreddit'', JStr ''test''),
         (''author'', JNull),
         (''comment_count'', JInt 2)]))"
proof -
  have lib:
    "resolve hi_lib (request_of hi_argv hi_environ) = None"
    "fetch hi_lib (request_of hi_argv hi_environ) = Inr hi_submission"
    "replace_more hi_lib (request_of hi_argv hi_environ) = Inr hi_flat"
    by (simp_all add: hi_lib_def)
  have sub:
    "permalink hi_submission = ''/r/test/comments/abc/hi/''"
    "submission_score hi_submission = 7"
    "subreddit hi_submission = ''test''"
    "submission_author hi_submission = None"
    "num_comments hi_submission = 2"
    by (simp_all add: hi_submission_def)
  from success_output [OF hi_request_ok lib] obtain line t s cs a where
    "script (Some hi_lib) hi_argv hi_environ =
      \<lparr>stdout = line @ ''\<newline>'', stderr = [], exit_code = 0\<rparr>"
    "CHR ''\<newline>'' \<notin> set line"
    "line = json_dumps (JObj
      [(''title'', JStr t),
       (''selftext'', JStr s),
       (''comments'', JArr (map JStr cs)),
       (''permalink'', JStr (permalink hi_submission)),
       (''score'', JInt (submission_score hi_submission)),
       (''subreddit'', JStr (subreddit hi_submission)),
       (''author'', a),
       (''comment_count'', JInt (num_comments hi_submission))])"
    "a = JNull"
    unfolding sub by auto
  then have "\<exists>line t s cs.
      script (Some hi_lib) hi_argv hi_environ =
        \<lparr>stdout = line @ ''\<newline>'', stderr = [], exit_code = 0\<rparr> \<and>
      CHR ''\<newline>'' \<notin> set line \<and>
      line = json_dumps (JObj
        [(''title'', JStr t),
         (''selftext'', JStr s),
         (''comments'', JArr (map JStr cs)),
         (''permalink'', JStr ''/r/test/comments/abc/hi/''),
         (''score'', JInt 7),
         (''subreddit'', JStr ''test''),
         (''author'', JNull),
         (''comment_count'', JInt 2)])"
    unfolding sub by blast
  with hi_request_ok lib show ?thesis
    by simp
qed

text \<open>
  Claim C3.  For every comment, the header is exactly \<^verbatim>\<open>[deleted]\<close> when the author is
  absent and \<^verbatim>\<open>u/\<close> followed by the author's name otherwise, followed by a space and
  \<^verbatim>\<open>(score: n)\<close> only when the comment has a score \<open>n\<close>; without a score the header is
  the author label alone, with no suffix and no space after it.  The header is what
  follows the indentation, up to the line break, in the rendered block.  Rendering
  raises no error: \<^const>\<open>render_comment\<close> gives a string for every comment.
\<close>

theorem header_format:
  "header c =
     (case author c of None \<Rightarrow> ''[deleted]'' | Some name \<Rightarrow> ''u/'' @ name) @
     (case score c of None \<Rightarrow> [] | Some s \<Rightarrow> '' (score: '' @ str_int s @ '')'')
   \<and> (\<exists>indent rest. set indent \<subseteq> {CHR '' ''} \<and>
          render_comment c = indent @ header c @ ''\<newline>'' @ rest)"
proof
  show "header c =
     (case author c of None \<Rightarrow> ''[deleted]'' | Some name \<Rightarrow> ''u/'' @ name) @
     (case score c of None \<Rightarrow> [] | Some s \<Rightarrow> '' (score: '' @ str_int s @ '')'')"
    by (simp add: header_def split: option.split)
  have "set (str_mul ''  '' n) \<subseteq> {CHR '' ''}" for n
    by (auto simp add: str_mul_def)
  then show "\<exists>indent rest. set indent \<subseteq> {CHR '' ''} \<and>
      render_comment c = indent @ header c @ ''\<newline>'' @ rest"
    unfolding render_comment_def Let_def by blast
qed

theorem header_format_witness:
  "header alice_comment = ''u/alice (score: 5)'' \<and> header deleted_reply = ''[deleted]''"
  using header_format [of alice_comment] header_format [of deleted_reply]
  by (simp add: alice_comment_def deleted_reply_def str_int_5)

text \<open>
  Claim C4.  For every comment at depth \<open>d\<close>, the rendered block is exactly \<open>2 * d\<close>
  spaces, the header, a line break, \<open>2 * d\<close> spaces and the body as it is; for a node
  that exposes no depth, \<open>d\<close> is 0.
\<close>

theorem render_indentation:
  "(depth c = Some (int d) \<and> body c = Some b \<longrightarrow>
      render_comment c =
        replicate (2 * d) CHR '' '' @ header c @ ''\<newline>'' @ replicate (2 * d) CHR '' '' @ b)
   \<and> (depth c = None \<and> body c = Some b \<longrightarrow>
      render_comment c = header c @ ''\<newline>'' @ b)"
  by (simp add: render_comment_def Let_def str_mul_two_spaces) (simp add: str_mul_def)

theorem render_indentation_witness:
  "depth deleted_reply = Some (int 1) \<and> body deleted_reply = Some ''reply'' \<and>
   render_comment deleted_reply = ''  [deleted]\<newline>  reply'' \<and>
   depth (alice_comment\<lparr>depth := None\<rparr>) = None \<and>
   body (alice_comment\<lparr>depth := None\<rparr>) = Some ''first'' \<and>
   render_comment (alice_comment\<lparr>depth := None\<rparr>) = ''u/alice (score: 5)\<newline>first''"
proof -
  have h: "header deleted_reply = ''[deleted]''"
    by (simp add: header_def deleted_reply_def)
  have h2: "header (alice_comment\<lparr>depth := None\<rparr>) = ''u/alice (score: 5)''"
    by (simp add: header_def alice_comment_def str_int_5)
  show ?thesis
    using render_indentation [of deleted_reply 1 "''reply''"]
      render_indentation [of "alice_comment\<lparr>depth := None\<rparr>" 0 "''first''"] h h2
    by (simp add: deleted_reply_def alice_comment_def eval_nat_numeral)
qed

text \<open>
  Claim C5.  For every comment sequence and every limit, a comment whose body is absent
  or empty contributes no entry to the \<^verbatim>\<open>comments\<close> list: the list is the same as
  without that comment.
\<close>

theorem no_body_no_entry:
  assumes "body c = None \<or> body c = Some []"
  shows "comments_loop limit (before @ c # after) [] = comments_loop limit (before @ after) []"
  using assms comments_loop_drop [of c limit before after "[]"] by (auto simp add: truthy_def)

theorem no_body_no_entry_witness:
  "body placeholder = None \<and>
   comments_loop None ([alice_comment] @ placeholder # [deleted_reply]) [] =
   comments_loop None ([alice_comment] @ [deleted_reply]) [] \<and>
   comments_loop None ([alice_comment] @ placeholder # [deleted_reply]) [] =
     [''u/alice (score: 5)\<newline>first'', ''  [deleted]\<newline>  reply'']"
proof -
  have b: "body placeholder = None"
    by (simp add: placeholder_def)
  have "comments_loop None ([alice_comment] @ placeholder # [deleted_reply]) [] =
      map render_comment (with_body hi_flat)"
    using comments_loop_None [of hi_flat "[]"]
    by (simp add: hi_flat_def del: comments_loop.simps)
  with b no_body_no_entry [of placeholder None "[alice_comment]" "[deleted_reply]"] hi_rendered
  show ?thesis
    by simp
qed

text \<open>
  Claim C6.  For every value of \<^verbatim>\<open>REDDIT_COMMENT_LIMIT\<close> that is not a number, that is,
  for which \<^verbatim>\<open>int\<close> raises \<^verbatim>\<open>ValueError\<close> (by \<open>py_int_rejects\<close>, every string with a
  character other than a digit, whitespace, a sign or an underscore is one), the program
  behaves as with the variable unset: the run is the same, no limit is applied and no
  error is raised.
\<close>

theorem non_numeric_limit:
  assumes "py_int s = None"
  shows "script praw_module argv (environ(''REDDIT_COMMENT_LIMIT'' \<mapsto> s)) =
         script praw_module argv (environ(''REDDIT_COMMENT_LIMIT'' := None))
       \<and> comment_limit_of (Some s) = comment_limit_of None"
proof -
  have "comment_limit_of (Some s) = comment_limit_of None"
    using assms by (simp add: comment_limit_of_Some comment_limit_of_unset)
  then show ?thesis
    using script_limit [of "Some s" None praw_module argv environ] by simp
qed

theorem non_numeric_limit_witness:
  "py_int ''abc'' = None \<and>
   script (Some hi_lib) hi_argv (hi_environ(''REDDIT_COMMENT_LIMIT'' \<mapsto> ''abc'')) =
   script (Some hi_lib) hi_argv (hi_environ(''REDDIT_COMMENT_LIMIT'' := None)) \<and>
   comment_limit_of (Some ''abc'') = None"
  using non_numeric_limit [OF py_int_abc, of "Some hi_lib" hi_argv hi_environ] py_int_abc
  by (simp add: comment_limit_of_unset)

text \<open>
  Claim C7.  With \<^verbatim>\<open>REDDIT_COMMENT_LIMIT\<close> set to \<^verbatim>\<open>0\<close> the program behaves as with no
  limit: the run is the same as with the variable unset, and every comment with a
  non-empty body is rendered and included.
\<close>

theorem zero_limit:
  "script praw_module argv (environ(''REDDIT_COMMENT_LIMIT'' \<mapsto> ''0'')) =
   script praw_module argv (environ(''REDDIT_COMMENT_LIMIT'' := None))
   \<and> comments_loop (comment_limit_of (Some ''0'')) flat [] = map render_comment (with_body flat)"
proof -
  have "comments_loop (comment_limit_of (Some ''0'')) xs [] =
      comments_loop (comment_limit_of None) xs []" for xs
    by (simp add: comment_limit_of_Some comment_limit_of_unset py_int_0 comments_loop_zero
        comments_loop_None)
  then show ?thesis
    using script_limit [of "Some ''0''" None praw_module argv environ]
    by (simp add: comment_limit_of_unset comments_loop_None)
qed

theorem zero_limit_witness:
  "comments_loop (comment_limit_of (Some ''0'')) hi_flat [] =
     [''u/alice (score: 5)\<newline>first'', ''  [deleted]\<newline>  reply'']"
  using zero_limit [of "Some hi_lib" hi_argv hi_environ hi_flat] hi_rendered
  by simp

text \<open>
  Claim C8.  If the URL argument is missing, or the client id or the client secret is
  missing from the environment (unset; the program treats an empty value alike), the
  program exits with status 1 and writes nothing to standard output.
\<close>

theorem missing_input:
  assumes "length argv < 2 \<or> \<not> truthy (environ ''REDDIT_CLIENT_ID'')
     \<or> \<not> truthy (environ ''REDDIT_CLIENT_SECRET'')"
  shows "exit_code (script praw_module argv environ) = 1 \<and>
         stdout (script praw_module argv environ) = []"
  using assms by (auto simp add: script_def main_def exit_1_def Let_def split: option.split)

theorem missing_input_witness:
  "length [''fetch_reddit.py''] < 2 \<and>
   script (Some hi_lib) [''fetch_reddit.py''] hi_environ =
     \<lparr>stdout = [], stderr = ''Usage: fetch_reddit.py <url>\<newline>'', exit_code = 1\<rparr> \<and>
   (hi_environ(''REDDIT_CLIENT_ID'' := None)) ''REDDIT_CLIENT_ID'' = None \<and>
   exit_code (script (Some hi_lib) hi_argv (hi_environ(''REDDIT_CLIENT_ID'' := None))) = 1 \<and>
   stdout (script (Some hi_lib) hi_argv (hi_environ(''REDDIT_CLIENT_ID'' := None))) = [] \<and>
   (hi_environ(''REDDIT_CLIENT_SECRET'' := None)) ''REDDIT_CLIENT_SECRET'' = None \<and>
   exit_code (script (Some hi_lib) hi_argv (hi_environ(''REDDIT_CLIENT_SECRET'' := None))) = 1 \<and>
   stdout (script (Some hi_lib) hi_argv (hi_environ(''REDDIT_CLIENT_SECRET'' := None))) = []"
proof -
  have u: "script (Some hi_lib) [''fetch_reddit.py''] hi_environ =
     \<lparr>stdout = [], stderr = ''Usage: fetch_reddit.py <url>\<newline>'', exit_code = 1\<rparr>"
    by (simp add: script_def main_def exit_1_def)
  show ?thesis
    using u missing_input [of "[''fetch_reddit.py'']" hi_environ "Some hi_lib"]
      missing_input [of hi_argv "hi_environ(''REDDIT_CLIENT_ID'' := None)" "Some hi_lib"]
      missing_input [of hi_argv "hi_environ(''REDDIT_CLIENT_SECRET'' := None)" "Some hi_lib"]
    by (simp add: truthy_def)
qed

text \<open>
  Claim C9.  For every failure of the library, whether it fails to resolve the URL, to
  authenticate and fetch, or to expand the comments, the process ends with a status
  other than 0 and with nothing on standard output.  No run leaves partial output:
  standard output is either empty, with a status other than 0, or the whole payload line.
\<close>

theorem source_failure:
  "(resolve lib (request_of argv environ) \<noteq> None \<or>
    isl (fetch lib (request_of argv environ)) \<or>
    isl (replace_more lib (request_of argv environ)) \<longrightarrow>
      exit_code (script (Some lib) argv environ) \<noteq> 0 \<and>
      stdout (script (Some lib) argv environ) = [])
   \<and> ((exit_code (script praw_module argv environ) \<noteq> 0 \<and>
        stdout (script praw_module argv environ) = []) \<or>
       (\<exists>submission comments.
          script praw_module argv environ =
            \<lparr>stdout = json_dumps (payload submission comments) @ ''\<newline>'',
             stderr = [], exit_code = 0\<rparr>))"
proof
  show "resolve lib (request_of argv environ) \<noteq> None \<or>
    isl (fetch lib (request_of argv environ)) \<or>
    isl (replace_more lib (request_of argv environ)) \<longrightarrow>
      exit_code (script (Some lib) argv environ) \<noteq> 0 \<and>
      stdout (script (Some lib) argv environ) = []"
    using main_outcomes [of lib argv environ] by (auto simp add: script_def)
  show "(exit_code (script praw_module argv environ) \<noteq> 0 \<and>
        stdout (script praw_module argv environ) = []) \<or>
       (\<exists>submission comments.
          script praw_module argv environ =
            \<lparr>stdout = json_dumps (payload submission comments) @ ''\<newline>'',
             stderr = [], exit_code = 0\<rparr>)"
  proof (cases praw_module)
    case None
    then show ?thesis
      by (simp add: script_def exit_1_def)
  next
    case (Some l)
    then show ?thesis
      using main_outcomes [of l argv environ] by (auto simp add: script_def)
  qed
qed

theorem source_failure_witness:
  "resolve bad_url_lib (request_of hi_argv hi_environ) \<noteq> None \<and>
   script (Some bad_url_lib) hi_argv hi_environ =
     \<lparr>stdout = [], stderr = ''InvalidURL'', exit_code = 1\<rparr> \<and>
   isl (fetch bad_auth_lib (request_of hi_argv hi_environ)) \<and>
   script (Some bad_auth_lib) hi_argv hi_environ =
     \<lparr>stdout = [], stderr = ''ResponseException'', exit_code = 1\<rparr> \<and>
   isl (replace_more bad_expand_lib (request_of hi_argv hi_environ)) \<and>
   script (Some bad_expand_lib) hi_argv hi_environ =
     \<lparr>stdout = [], stderr = ''ServerError'', exit_code = 1\<rparr>"
proof -
  have a: "script (Some bad_url_lib) hi_argv hi_environ =
     \<lparr>stdout = [], stderr = ''InvalidURL'', exit_code = 1\<rparr>"
    using hi_request_ok
    by (simp add: script_def main_def bad_url_lib_def hi_lib_def uncaught_def)
  have b: "script (Some bad_auth_lib) hi_argv hi_environ =
     \<lparr>stdout = [], stderr = ''ResponseException'', exit_code = 1\<rparr>"
    using hi_request_ok
    by (simp add: script_def main_def bad_auth_lib_def hi_lib_def uncaught_def)
  have c: "script (Some bad_expand_lib) hi_argv hi_environ =
     \<lparr>stdout = [], stderr = ''ServerError'', exit_code = 1\<rparr>"
    using hi_request_ok
    by (simp add: script_def main_def bad_expand_lib_def hi_lib_def uncaught_def)
  show ?thesis
    using a b c source_failure [of bad_url_lib hi_argv hi_environ "Some bad_url_lib"]
      source_failure [of bad_auth_lib hi_argv hi_environ "Some bad_auth_lib"]
      source_failure [of bad_expand_lib hi_argv hi_environ "Some bad_expand_lib"]
    by (simp add: bad_url_lib_def bad_auth_lib_def bad_expand_lib_def hi_lib_def)
qed

text \<open>
  Claim C10.  For every value of \<^verbatim>\<open>REDDIT_COMMENT_LIMIT\<close> that \<^verbatim>\<open>int\<close> reads as a negative
  integer and every comment sequence, the \<^verbatim>\<open>comments\<close> list has at most one entry: the
  loop stops once the first comment with a non-empty body has been rendered, so the list
  is that one rendering, or empty when no comment has a body.
\<close>

theorem negative_limit:
  assumes "py_int s = Some n" and "n < 0"
  shows "comments_loop (comment_limit_of (Some s)) flat [] =
           take 1 (map render_comment (with_body flat))
         \<and> length (comments_loop (comment_limit_of (Some s)) flat []) \<le> 1"
proof -
  from assms(1) have "comment_limit_of (Some s) = Some n"
    by (simp add: comment_limit_of_Some)
  with assms(2) show ?thesis
    by (simp add: comments_loop_negative)
qed

theorem negative_limit_witness:
  "py_int ''-5'' = Some (- 5) \<and> (- 5 :: int) < 0 \<and>
   comments_loop (comment_limit_of (Some ''-5'')) hi_flat [] = [''u/alice (score: 5)\<newline>first'']"
  using negative_limit [OF py_int_minus_5, of hi_flat] py_int_minus_5 hi_rendered
  by simp

end
